theory Spec2Isabelle
  imports Complex_Main "HOL-Library.AList" "HOL-Library.Multiset" "HOL-Library.Sublist"
    "HOL-Library.List_Lexorder" "HOL-Library.Char_ord"
begin

section \<open>Values, errors and files\<close>

text \<open>
  Buchfink reads its configuration, the per-account ledgers and the static account files
  with \<^verbatim>\<open>yaml.load(..., Loader=yaml.SafeLoader)\<close>. A loaded document is a tree of
  Python values; a mapping keeps its keys in insertion order, so it is an association
  list (the first pair of a key is the one a lookup finds).
\<close>

datatype yaml =
    YNull
  | YStr string
  | YInt int
  | YList "yaml list"
  | YMap "(string \<times> yaml) list"

text \<open>
  Every exception of the source is a value. \<open>Raised\<close> is an exception that comes out of
  a collaborator outside the repository (an exchange client, the chain manager, the price
  inquirer, the accountant).
\<close>

datatype error =
    KeyError string
  | IndexError
  | ValueError string
  | TypeError
  | AttributeError
  | FileNotFoundError string
  | ZeroDivisionError
  | InvalidOperation
  | Raised string

text \<open>
  Sequencing: the second step runs on the value of the first, and an exception of the
  first is the exception of the whole.
\<close>

fun bnd :: "error + 'a \<Rightarrow> ('a \<Rightarrow> error + 'b) \<Rightarrow> error + 'b" where
  "bnd (Inl e) f = Inl e"
| "bnd (Inr x) f = f x"

text \<open>\<^verbatim>\<open>d[k]\<close> on a loaded value: only a mapping can be indexed by a string.\<close>

definition py_getitem :: "yaml \<Rightarrow> string \<Rightarrow> error + yaml" where
  "py_getitem d k =
     (case d of
        YMap m \<Rightarrow> (case map_of m k of None \<Rightarrow> Inl (KeyError k) | Some v \<Rightarrow> Inr v)
      | _ \<Rightarrow> Inl TypeError)"

text \<open>\<^verbatim>\<open>d.get(k, default)\<close>: a method of mappings only.\<close>

definition py_get :: "yaml \<Rightarrow> string \<Rightarrow> yaml \<Rightarrow> error + yaml" where
  "py_get d k dflt =
     (case d of
        YMap m \<Rightarrow> (case map_of m k of None \<Rightarrow> Inr dflt | Some v \<Rightarrow> Inr v)
      | _ \<Rightarrow> Inl AttributeError)"

text \<open>The substring test of \<^verbatim>\<open>k in s\<close> on two strings.\<close>

fun str_contains :: "string \<Rightarrow> string \<Rightarrow> bool" where
  "str_contains [] k = (k = [])"
| "str_contains (c # cs) k = (prefix k (c # cs) \<or> str_contains cs k)"


text \<open>
  The elements a \<^verbatim>\<open>for\<close> loop or a comprehension draws from a loaded value: the items
  of a list, the keys of a mapping, the characters of a string.
\<close>

definition py_iter :: "yaml \<Rightarrow> error + yaml list" where
  "py_iter v =
     (case v of
        YList l \<Rightarrow> Inr l
      | YMap m \<Rightarrow> Inr (map (\<lambda>p. YStr (fst p)) m)
      | YStr s \<Rightarrow> Inr (map (\<lambda>c. YStr [c]) s)
      | _ \<Rightarrow> Inl TypeError)"

text \<open>A list comprehension \<^verbatim>\<open>[f(x) for x in xs]\<close> stops at the first exception.\<close>

fun map_result :: "('a \<Rightarrow> error + 'b) \<Rightarrow> 'a list \<Rightarrow> error + 'b list" where
  "map_result f [] = Inr []"
| "map_result f (x # xs) =
     (case f x of
        Inl e \<Rightarrow> Inl e
      | Inr y \<Rightarrow> (case map_result f xs of Inl e \<Rightarrow> Inl e | Inr ys \<Rightarrow> Inr (y # ys)))"

subsection \<open>Paths and files\<close>

text \<open>
  \<^verbatim>\<open>os.path.join\<close> on POSIX: a component that starts with a slash replaces what was
  joined so far; otherwise it is appended, after a slash unless the path so far is empty
  or ends with one.
\<close>

fun os_path_join :: "string \<Rightarrow> string list \<Rightarrow> string" where
  "os_path_join path [] = path"
| "os_path_join path (b # bs) =
     os_path_join
       (if prefix ''/'' b then b
        else if path = [] \<or> last path = CHR ''/'' then path @ b
        else path @ ''/'' @ b) bs"

text \<open>
  The file a path names. \<^verbatim>\<open>open\<close> resolves a path against the working directory of
  the process: the path is cut at its slashes, empty components and \<^verbatim>\<open>.\<close> components
  name nothing, and a leading slash makes it absolute. Two paths with the same resolution
  are the same file. (Components \<^verbatim>\<open>..\<close> and symbolic links are not resolved.)
\<close>

fun split_slash :: "string \<Rightarrow> string list" where
  "split_slash [] = [[]]"
| "split_slash (c # cs) =
     (if c = CHR ''/'' then [] # split_slash cs
      else (case split_slash cs of [] \<Rightarrow> [[c]] | w # ws \<Rightarrow> (c # w) # ws))"

definition resolve :: "string \<Rightarrow> bool \<times> string list" where
  "resolve p = (prefix ''/'' p, filter (\<lambda>c. c \<noteq> [] \<and> c \<noteq> ''.'') (split_slash p))"

text \<open>
  The files of the machine, each with the document \<^verbatim>\<open>yaml.load\<close> reads from it.
  \<^verbatim>\<open>yaml.dump\<close> followed by \<^verbatim>\<open>yaml.load\<close> is taken to give the document back.
\<close>

type_synonym files = "bool \<times> string list \<Rightarrow> yaml option"

definition yaml_load_open :: "files \<Rightarrow> string \<Rightarrow> error + yaml" where
  "yaml_load_open fs path =
     (case fs (resolve path) of None \<Rightarrow> Inl (FileNotFoundError path) | Some d \<Rightarrow> Inr d)"


section \<open>BuchfinkDB (db.py)\<close>

text \<open>
  The configuration document \<^verbatim>\<open>buchfink.yaml\<close> as loaded: its \<^verbatim>\<open>accounts\<close> and
  \<^verbatim>\<open>reports\<close> are lists of mappings, and its settings name the main currency, an asset
  identifier. An account is the mapping itself: the code tells the four kinds apart by the
  key that is present (\<^verbatim>\<open>exchange\<close>, \<^verbatim>\<open>ethereum\<close>, \<^verbatim>\<open>bitcoin\<close>, \<^verbatim>\<open>file\<close>).
\<close>

type_synonym account = "(string \<times> yaml) list"

type_synonym asset = string

record config =
  accounts :: "account list"
  reports :: "(string \<times> yaml) list list"
  main_currency :: asset

record buchfink_db =
  data_directory :: string
  db_config :: config

text \<open>\<^verbatim>\<open>BuchfinkDB()\<close>: the data directory defaults to the working directory.\<close>

definition BuchfinkDB :: "config \<Rightarrow> buchfink_db" where
  "BuchfinkDB cfg = \<lparr>data_directory = ''.'', db_config = cfg\<rparr>"

definition get_all_accounts :: "buchfink_db \<Rightarrow> account list" where
  "get_all_accounts db = accounts (db_config db)"

text \<open>
  \<^verbatim>\<open>[a for a in self.config['accounts'] if a['name'] == account][0]\<close>: every account is
  asked for its name (a KeyError where one has none), and the first match is taken (an
  IndexError where there is none).
\<close>

fun accounts_named :: "account list \<Rightarrow> yaml \<Rightarrow> error + account list" where
  "accounts_named [] name = Inr []"
| "accounts_named (a # as) name =
     (case map_of a ''name'' of
        None \<Rightarrow> Inl (KeyError ''name'')
      | Some n \<Rightarrow>
          (case accounts_named as name of
             Inl e \<Rightarrow> Inl e
           | Inr r \<Rightarrow> Inr (if n = name then a # r else r)))"

definition account_info_of :: "buchfink_db \<Rightarrow> yaml \<Rightarrow> error + account" where
  "account_info_of db name =
     (case accounts_named (accounts (db_config db)) name of
        Inl e \<Rightarrow> Inl e
      | Inr [] \<Rightarrow> Inl IndexError
      | Inr (a # _) \<Rightarrow> Inr a)"

text \<open>String concatenation \<^verbatim>\<open>v + s\<close> and \<^verbatim>\<open>s + v\<close> with a loaded value \<open>v\<close>.\<close>

definition str_add :: "yaml \<Rightarrow> string \<Rightarrow> error + string" where
  "str_add v s = (case v of YStr n \<Rightarrow> Inr (n @ s) | _ \<Rightarrow> Inl TypeError)"

definition add_str :: "string \<Rightarrow> yaml \<Rightarrow> error + string" where
  "add_str s v = (case v of YStr n \<Rightarrow> Inr (s @ n) | _ \<Rightarrow> Inl TypeError)"

text \<open>
  \<^verbatim>\<open>get_local_trades_for_account\<close>. \<^verbatim>\<open>deserialize_trade\<close> belongs to
  \<^verbatim>\<open>buchfink.serialization\<close> and is a parameter here.
\<close>

definition get_local_trades_for_account ::
  "(yaml \<Rightarrow> error + 't) \<Rightarrow> files \<Rightarrow> buchfink_db \<Rightarrow> yaml \<Rightarrow> error + 't list" where
  "get_local_trades_for_account deserialize_trade fs db account =
     bnd (account_info_of db account) (\<lambda>account_info.
       if map_of account_info ''exchange'' \<noteq> None then
         bnd (py_getitem (YMap account_info) ''name'') (\<lambda>nm.
         bnd (str_add nm ''.yaml'') (\<lambda>file_name.
         bnd (yaml_load_open fs (os_path_join (data_directory db) [''trades'', file_name]))
           (\<lambda>exchange.
         bnd (py_getitem exchange ''trades'') (\<lambda>ts.
         bnd (py_iter ts) (map_result deserialize_trade)))))
       else if map_of account_info ''file'' \<noteq> None then
         bnd (py_getitem (YMap account_info) ''file'') (\<lambda>f.
           case f of
             YStr file_name \<Rightarrow>
               bnd (yaml_load_open fs (os_path_join (data_directory db) [file_name]))
                 (\<lambda>exchange.
               bnd (py_get exchange ''trades'' (YList [])) (\<lambda>ts.
               bnd (py_iter ts) (map_result deserialize_trade)))
           | _ \<Rightarrow> Inl TypeError)
       else if map_of account_info ''ethereum'' \<noteq> None
               \<or> map_of account_info ''bitcoin'' \<noteq> None then
         Inr []
       else
         bnd (add_str ''Invalid account: '' account) (\<lambda>msg. Inl (ValueError msg)))"

text \<open>
  \<^verbatim>\<open>get_exchange\<close>: the account's \<^verbatim>\<open>exchange\<close> entry selects the client class; an
  entry that is none of the ten known names raises ValueError. The client is built from
  the account's \<^verbatim>\<open>api_key\<close> and \<^verbatim>\<open>secret\<close> (Coinbasepro also from its
  \<^verbatim>\<open>passphrase\<close>), each read with \<^verbatim>\<open>account_info[...]\<close>; \<^verbatim>\<open>str(...)\<close> of an entry
  cannot fail, so the entries are kept as loaded.
\<close>

datatype exchange_kind =
  Kraken | Binance | Coinbase | Coinbasepro | Gemini | Bitmex | Bittrex | Poloniex
  | Bitcoinde | Iconomi

record exchange =
  kind :: exchange_kind
  api_key :: yaml
  secret :: yaml
  passphrase :: "yaml option"




text \<open>
  \<^verbatim>\<open>get_chain_manager\<close>: the manager is built for the one address of the account,
  \<^verbatim>\<open>BlockchainAccounts(eth=[...], btc=[])\<close> or \<^verbatim>\<open>BlockchainAccounts(eth=[], btc=[...])\<close>.
\<close>

record blockchain_accounts =
  eth :: "yaml list"
  btc :: "yaml list"



subsection \<open>Collaborators\<close>

text \<open>
  Amounts and prices are \<^verbatim>\<open>FVal\<close>, a wrapper of \<^verbatim>\<open>decimal.Decimal\<close>; sums, order and
  quotients of such numbers are those of the rationals here (no result leaves the
  precision of the decimal context). A \<^verbatim>\<open>datetime\<close> is a point on the time line, and
  only its order matters.
\<close>

type_synonym fval = rat

type_synonym datetime = int

text \<open>
  \<^verbatim>\<open>ReportConfig\<close> (\<^verbatim>\<open>.config\<close>) as the two constructor calls of the source fill it:
  \<^verbatim>\<open>title\<close> and \<^verbatim>\<open>template\<close> are \<^verbatim>\<open>None\<close> where the caller gives none.
\<close>

record ReportConfig =
  name :: string
  title :: yaml
  template :: yaml
  from_dt :: datetime
  to_dt :: datetime

text \<open>
  What the code calls outside the repository, each call with the outcome it has in the
  run under study (a value, or the exception it raises):
  \<^item> the exchange client: \<^verbatim>\<open>validate_api_key()\<close>, \<^verbatim>\<open>query_balances()\<close> (a pair of
    the balances, or \<^verbatim>\<open>None\<close>, and an error message, empty when there is no error) and
    \<^verbatim>\<open>query_online_trade_history(start_ts=epoch_start_ts, end_ts=epoch_end_ts)\<close>;
    a balance of an exchange is a mapping with \<^verbatim>\<open>amount\<close> and, where the exchange
    could price the asset, \<^verbatim>\<open>usd_value\<close>;
  \<^item> the chain manager: \<^verbatim>\<open>query_balances()\<close> and then \<^verbatim>\<open>balances.eth.values()\<close>
    (per address the \<^verbatim>\<open>asset_balances\<close>, each an amount and a usd value) or
    \<^verbatim>\<open>balances.btc.values()\<close>;
  \<^item> the price inquirer \<^verbatim>\<open>find_usd_price\<close>, and the constructors \<^verbatim>\<open>FVal(...)\<close> and
    \<^verbatim>\<open>Asset(...)\<close> on a loaded value, and \<^verbatim>\<open>asset.symbol\<close>;
  \<^item> \<^verbatim>\<open>round(float(x), 2)\<close>, whose result is a binary floating-point number, a rational;
  \<^item> \<^verbatim>\<open>datetime.fromisoformat(str(v))\<close> and \<^verbatim>\<open>str(v)\<close> on a loaded value that is
    not a string;
  \<^item> \<^verbatim>\<open>run_report\<close> (\<^verbatim>\<open>.report\<close>), whose result is a mapping with an
    \<^verbatim>\<open>overview\<close>;
  \<^item> the accountant: \<^verbatim>\<open>process_history\<close> on the collected trades and then
    \<^verbatim>\<open>events.details.items()\<close>, per symbol the allowance and the buy price.
\<close>

record 't world =
  validate_api_key :: "exchange \<Rightarrow> error + bool \<times> string"
  query_balances :: "exchange \<Rightarrow> error + (asset \<times> (string \<times> fval) list) list option \<times> string"
  query_online_trade_history :: "exchange \<Rightarrow> error + 't list"
  eth_balances :: "blockchain_accounts \<Rightarrow> error + (asset \<times> fval \<times> fval) list list"
  btc_balances :: "blockchain_accounts \<Rightarrow> error + (fval \<times> fval) list"
  find_usd_price :: "asset \<Rightarrow> error + fval"
  FVal_of :: "yaml \<Rightarrow> error + fval"
  Asset_of :: "yaml \<Rightarrow> error + asset"
  asset_symbol :: "asset \<Rightarrow> string"
  round_float2 :: "fval \<Rightarrow> rat"
  fromisoformat_str :: "yaml \<Rightarrow> error + datetime"
  str_other :: "yaml \<Rightarrow> string"
  run_report :: "buchfink_db \<Rightarrow> ReportConfig \<Rightarrow> error + yaml"
  process_history :: "'t list \<Rightarrow> error + (string \<times> fval \<times> fval) list"

definition py_str :: "'t world \<Rightarrow> yaml \<Rightarrow> string" where
  "py_str w v = (case v of YStr s \<Rightarrow> s | _ \<Rightarrow> str_other w v)"

text \<open>
  \<^verbatim>\<open>get_all_reports\<close> is a generator: each report definition is built when the loop of
  the caller asks for it, so the result is the list of the outcomes of the steps, and a
  step that raises ends the loop that draws from it. \<^verbatim>\<open>make_report\<close> is one step.
\<close>

definition make_report :: "'t world \<Rightarrow> (string \<times> yaml) list \<Rightarrow> error + ReportConfig" where
  "make_report w report_info =
     bnd (py_getitem (YMap report_info) ''name'') (\<lambda>n.
     bnd (py_get (YMap report_info) ''title'' YNull) (\<lambda>ti.
     bnd (py_get (YMap report_info) ''template'' YNull) (\<lambda>te.
     bnd (py_getitem (YMap report_info) ''from'') (\<lambda>f.
     bnd (fromisoformat_str w f) (\<lambda>fd.
     bnd (py_getitem (YMap report_info) ''to'') (\<lambda>t.
     bnd (fromisoformat_str w t) (\<lambda>td.
       Inr \<lparr>name = py_str w n, title = ti, template = te, from_dt = fd, to_dt = td\<rparr>)))))))"

definition get_all_reports :: "'t world \<Rightarrow> buchfink_db \<Rightarrow> (error + ReportConfig) list" where
  "get_all_reports w db = map (make_report w) (reports (db_config db))"

section \<open>The commands (cli.py)\<close>

text \<open>
  A Python \<^verbatim>\<open>dict\<close> that is filled in a loop keeps its keys in the order of their first
  insertion: \<^verbatim>\<open>d[k] = v\<close> is \<^const>\<open>AList.update\<close>, \<^verbatim>\<open>d.get(k, default)\<close> is
  \<open>dict_get\<close>.
\<close>

definition dict_get :: "('k \<times> 'v) list \<Rightarrow> 'k \<Rightarrow> 'v \<Rightarrow> 'v" where
  "dict_get d k dflt = (case map_of d k of None \<Rightarrow> dflt | Some v \<Rightarrow> v)"

text \<open>What a command writes to the log or the terminal before its table.\<close>

datatype log_entry =
    Skipping_exchange yaml string
  | Fetched_balances nat yaml
  | Fetching_trades string
  | Fetched_trades nat yaml
  | Overview yaml
  | Collected_trades nat nat


subsection \<open>balances\<close>

record totals =
  balances_sum :: "(asset \<times> fval) list"
  usd_value_sum :: "(asset \<times> fval) list"

text \<open>\<^verbatim>\<open>balances_sum[asset] = balances_sum.get(asset, FVal(0)) + amount\<close>\<close>

definition add_amount :: "asset \<Rightarrow> fval \<Rightarrow> totals \<Rightarrow> totals" where
  "add_amount a amount s =
     s\<lparr>balances_sum := AList.update a (dict_get (balances_sum s) a 0 + amount) (balances_sum s)\<rparr>"

text \<open>\<^verbatim>\<open>usd_value_sum[asset] = usd_value_sum.get(asset, FVal(0)) + usd_value\<close>\<close>

definition add_usd_value :: "asset \<Rightarrow> fval \<Rightarrow> totals \<Rightarrow> totals" where
  "add_usd_value a usd s =
     s\<lparr>usd_value_sum := AList.update a (dict_get (usd_value_sum s) a 0 + usd) (usd_value_sum s)\<rparr>"













subsection \<open>fetch\<close>





subsection \<open>report and run\<close>


text \<open>
  The first loop of \<^verbatim>\<open>run\<close> (lines 198 to 205) over the report definitions as the
  generator yields them; \<^verbatim>\<open>results\<close> is a dict keyed by the report name.
\<close>

fun run_reports ::
  "'t world \<Rightarrow> buchfink_db \<Rightarrow> string option \<Rightarrow> (error + ReportConfig) list
     \<Rightarrow> (string \<times> yaml) list \<Rightarrow> error + (string \<times> yaml) list" where
  "run_reports w db keyword [] results = Inr results"
| "run_reports w db keyword (Inl e # rest) results = Inl e"
| "run_reports w db keyword (Inr rep # rest) results =
     (if keyword \<noteq> None \<and> \<not> str_contains (name rep) (the keyword)
      then run_reports w db keyword rest results
      else
        bnd (run_report w db rep) (\<lambda>result.
          run_reports w db keyword rest (AList.update (name rep) result results)))"

text \<open>One row of the overview table (lines 209 to 213).\<close>

definition overview_row :: "string \<times> yaml \<Rightarrow> error + string \<times> yaml \<times> yaml" where
  "overview_row r =
     bnd (py_getitem (snd r) ''overview'') (\<lambda>ov.
     bnd (py_getitem ov ''total_profit_loss'') (\<lambda>pl.
     bnd (py_getitem ov ''total_taxable_profit_loss'') (\<lambda>tpl. Inr (fst r, pl, tpl))))"

definition run :: "'t world \<Rightarrow> config \<Rightarrow> string option \<Rightarrow> error + (string \<times> yaml \<times> yaml) list" where
  "run w cfg keyword =
     (let buchfink_db = BuchfinkDB cfg in
      bnd (run_reports w buchfink_db keyword (get_all_reports w buchfink_db) [])
        (map_result overview_row))"

subsection \<open>allowances\<close>

text \<open>The loop that collects the local trades of every account (lines 226 to 228).\<close>

fun collect_trades ::
  "(yaml \<Rightarrow> error + 't) \<Rightarrow> files \<Rightarrow> buchfink_db \<Rightarrow> account list \<Rightarrow> 't list \<Rightarrow> error + 't list" where
  "collect_trades deserialize_trade fs db [] all_trades = Inr all_trades"
| "collect_trades deserialize_trade fs db (account # rest) all_trades =
     bnd (py_getitem (YMap account) ''name'') (\<lambda>nm.
     bnd (get_local_trades_for_account deserialize_trade fs db nm) (\<lambda>ts.
       collect_trades deserialize_trade fs db rest (all_trades @ ts)))"

definition allowances ::
  "'t world \<Rightarrow> (yaml \<Rightarrow> error + 't) \<Rightarrow> files \<Rightarrow> config
     \<Rightarrow> error + (string \<times> fval \<times> string \<times> fval) list \<times> log_entry list" where
  "allowances w deserialize_trade fs cfg =
     (let buchfink_db = BuchfinkDB cfg in
      bnd (collect_trades deserialize_trade fs buchfink_db (get_all_accounts buchfink_db) [])
        (\<lambda>all_trades.
      bnd (process_history w all_trades) (\<lambda>details.
        Inr (map (\<lambda>(symbol, allowance, buy_price). (symbol, allowance, ''TBD'', buy_price))
               details,
             [Collected_trades (length all_trades)
                (length (get_all_accounts buchfink_db))]))))"

section \<open>The contributions of the accounts to the balances\<close>

text \<open>
  What one balance adds to the two dicts of \<^verbatim>\<open>balances\<close>: an asset, an amount and,
  where the balance has one, a usd value. Each loop of the command over the balances of
  an account is the list of its entries, applied one by one to the dicts (this is proved
  below); the entries of a run are those of its accounts, in the order of the accounts.
\<close>

type_synonym entry = "asset \<times> fval \<times> fval option"

fun apply_entry :: "entry \<Rightarrow> totals \<Rightarrow> totals" where
  "apply_entry (a, amount, None) s = add_amount a amount s"
| "apply_entry (a, amount, Some usd) s = add_usd_value a usd (add_amount a amount s)"

definition apply_entries :: "entry list \<Rightarrow> totals \<Rightarrow> totals" where
  "apply_entries es s = fold apply_entry es s"







text \<open>
  The total quantity of an asset over the entries of a run, and its total usd value over
  the entries that have one.
\<close>

definition quantity_total :: "entry list \<Rightarrow> asset \<Rightarrow> fval" where
  "quantity_total es x = sum_list (map (\<lambda>e. fst (snd e)) (filter (\<lambda>e. fst e = x) es))"

definition priced :: "entry list \<Rightarrow> (asset \<times> fval) list" where
  "priced es = concat (map (\<lambda>e. case snd (snd e) of None \<Rightarrow> [] | Some u \<Rightarrow> [(fst e, u)]) es)"






section \<open>The serialized ledger (buchfink.serialization)\<close>

text \<open>
  Modelled from the spec: \<^verbatim>\<open>Trade\<close> of \<^verbatim>\<open>buchfink.datatypes\<close>, which is not among
  the sources. The specification gives the record as a timestamp, a pair of a base and a
  quote asset, a trade type (buy or sell), an amount, a rate, a fee, a fee asset and the
  source account. A decimal number is kept as Python's \<^verbatim>\<open>Decimal\<close> keeps it, as a
  sign, a coefficient and an exponent, so that \<open>1.50\<close> and \<open>1.5\<close> differ.
\<close>

record decimal =
  negative :: bool
  coefficient :: nat
  exponent :: int

datatype trade_type = Buy | Sell

record trade =
  timestamp :: int
  base_asset :: asset
  quote_asset :: asset
  trade_type :: trade_type
  amount :: decimal
  rate :: decimal
  fee :: decimal
  fee_asset :: asset
  source_account :: string






definition is_digit :: "char \<Rightarrow> bool" where
  "is_digit c = (48 \<le> (of_char c :: nat) \<and> (of_char c :: nat) \<le> 57)"

definition str_nat :: "string \<Rightarrow> error + nat" where
  "str_nat s =
     (if s = [] \<or> \<not> list_all is_digit s then Inl (ValueError s)
      else Inr (foldl (\<lambda>acc c. 10 * acc + (of_char c - 48)) 0 s))"

definition str_int :: "string \<Rightarrow> error + int" where
  "str_int s =
     (case s of
        c # r \<Rightarrow>
          if c = CHR ''-'' then bnd (str_nat r) (\<lambda>n. Inr (- int n))
          else bnd (str_nat s) (\<lambda>n. Inr (int n))
      | [] \<Rightarrow> Inl (ValueError s))"

definition str_unsigned_decimal :: "bool \<Rightarrow> string \<Rightarrow> error + decimal" where
  "str_unsigned_decimal neg s =
     (case dropWhile (\<lambda>c. c \<noteq> CHR ''E'') s of
        [] \<Rightarrow> Inl (ValueError s)
      | _ # e \<Rightarrow>
          bnd (str_nat (takeWhile (\<lambda>c. c \<noteq> CHR ''E'') s)) (\<lambda>c.
          bnd (str_int e) (\<lambda>x. Inr \<lparr>negative = neg, coefficient = c, exponent = x\<rparr>)))"

definition str_decimal :: "string \<Rightarrow> error + decimal" where
  "str_decimal s =
     (case s of
        c # r \<Rightarrow> if c = CHR ''-'' then str_unsigned_decimal True r
                 else str_unsigned_decimal False s
      | [] \<Rightarrow> Inl (ValueError s))"



definition get_string :: "yaml \<Rightarrow> string \<Rightarrow> error + string" where
  "get_string d k =
     bnd (py_getitem d k) (\<lambda>v. case v of YStr s \<Rightarrow> Inr s | _ \<Rightarrow> Inl TypeError)"

definition get_decimal :: "yaml \<Rightarrow> string \<Rightarrow> error + decimal" where
  "get_decimal d k = bnd (get_string d k) str_decimal"

definition deserialize_trade :: "yaml \<Rightarrow> error + trade" where
  "deserialize_trade d =
     bnd (py_getitem d ''timestamp'') (\<lambda>ts.
       case ts of
         YInt i \<Rightarrow>
           bnd (get_string d ''base_asset'') (\<lambda>b.
           bnd (get_string d ''quote_asset'') (\<lambda>q.
           bnd (get_string d ''trade_type'') (\<lambda>ty.
           bnd (if ty = ''buy'' then Inr Buy else if ty = ''sell'' then Inr Sell
                else Inl (ValueError ty)) (\<lambda>tt.
           bnd (get_decimal d ''amount'') (\<lambda>am.
           bnd (get_decimal d ''rate'') (\<lambda>ra.
           bnd (get_decimal d ''fee'') (\<lambda>fe.
           bnd (get_string d ''fee_asset'') (\<lambda>fa.
           bnd (get_string d ''source_account'') (\<lambda>sa.
             Inr \<lparr>timestamp = i, base_asset = b, quote_asset = q, trade_type = tt,
                  amount = am, rate = ra, fee = fe, fee_asset = fa,
                  source_account = sa\<rparr>)))))))))
       | _ \<Rightarrow> Inl TypeError)"

section \<open>A configuration and collaborators to run the commands on\<close>

text \<open>
  The configuration of the scenario of the specification: an exchange account and an
  Ethereum address, and a static file beside them. The collaborators of \<open>quiet_world\<close> accept every key and have
  nothing to report; an example changes the fields it needs.
\<close>

definition kraken1 :: account where
  "kraken1 = [(''name'', YStr ''kraken1''), (''exchange'', YStr ''kraken''),
              (''api_key'', YStr ''k''), (''secret'', YStr ''s'')]"

definition wallet1 :: account where
  "wallet1 = [(''name'', YStr ''wallet1''), (''ethereum'', YStr ''0xabc'')]"

definition manual1 :: account where
  "manual1 = [(''name'', YStr ''manual1''), (''file'', YStr ''manual.yaml'')]"

definition example_config :: config where
  "example_config =
     \<lparr>accounts = [kraken1, wallet1, manual1], reports = [], main_currency = ''USD''\<rparr>"

text \<open>Files, given by a path each.\<close>

definition files_of :: "(string \<times> yaml) list \<Rightarrow> files" where
  "files_of l = map_of (map (\<lambda>(p, d). (resolve p, d)) l)"

text \<open>Two report definitions, and one whose dates are the wrong way round.\<close>

definition y2020 :: "(string \<times> yaml) list" where
  "y2020 = [(''name'', YStr ''y2020''), (''from'', YStr ''2020-01-01''),
            (''to'', YStr ''2020-12-31'')]"

definition y2021 :: "(string \<times> yaml) list" where
  "y2021 = [(''name'', YStr ''y2021''), (''from'', YStr ''2021-01-01''),
            (''to'', YStr ''2021-12-31'')]"


text \<open>The dates of the examples, as the number of their day since 1970-01-01.\<close>

definition example_dates :: "yaml \<Rightarrow> error + datetime" where
  "example_dates v =
     (if v = YStr ''2020-01-01'' then Inr 18262
      else if v = YStr ''2020-12-31'' then Inr 18627
      else if v = YStr ''2021-01-01'' then Inr 18628
      else if v = YStr ''2021-12-31'' then Inr 18992
      else Inl (ValueError ''Invalid isoformat string''))"

definition example_result :: yaml where
  "example_result =
     YMap [(''overview'',
            YMap [(''total_profit_loss'', YInt 5), (''total_taxable_profit_loss'', YInt 3)])]"

definition quiet_world :: "'t world" where
  "quiet_world =
     \<lparr>validate_api_key = (\<lambda>e. Inr (True, [])),
      query_balances = (\<lambda>e. Inr (Some [], [])),
      query_online_trade_history = (\<lambda>e. Inr []),
      eth_balances = (\<lambda>m. Inr []),
      btc_balances = (\<lambda>m. Inr []),
      find_usd_price = (\<lambda>a. Inr 1),
      FVal_of = (\<lambda>v. case v of YInt i \<Rightarrow> Inr (of_int i) | _ \<Rightarrow> Inl (ValueError ''FVal'')),
      Asset_of = (\<lambda>v. case v of YStr s \<Rightarrow> Inr s | _ \<Rightarrow> Inl (ValueError ''Asset'')),
      asset_symbol = (\<lambda>a. a),
      round_float2 = (\<lambda>x. x),
      fromisoformat_str = example_dates,
      str_other = (\<lambda>v. ''?''),
      run_report = (\<lambda>db r. Inr example_result),
      process_history = (\<lambda>ts. Inr [])\<rparr>"

text \<open>A world where the accounting of the report \<open>y2020\<close> fails.\<close>

definition failing_world :: "'t world" where
  "failing_world =
     quiet_world\<lparr>run_report :=
       (\<lambda>db r. if name r = ''y2020'' then Inl (Raised ''ReportError'') else Inr example_result)\<rparr>"












section \<open>Local trades of an account\<close>

lemma accounts_named_none:
  "\<forall>x\<in>set accs. map_of x ''name'' \<noteq> None \<and> map_of x ''name'' \<noteq> Some n
   \<Longrightarrow> accounts_named accs n = Inr []"
  by (induction accs) auto

text \<open>
  Where every account has a name and no two accounts share one, the lookup by name finds
  the account itself.
\<close>

lemma accounts_named_unique:
  assumes "\<forall>x\<in>set accs. map_of x ''name'' \<noteq> None"
      and "distinct (map (\<lambda>x. map_of x ''name'') accs)"
      and "a \<in> set accs" and "map_of a ''name'' = Some n"
  shows "accounts_named accs n = Inr [a]"
  using assms
proof (induction accs)
  case Nil
  then show ?case by simp
next
  case (Cons x xs)
  show ?case
  proof (cases "x = a")
    case True
    have "\<forall>y\<in>set xs. map_of y ''name'' \<noteq> None \<and> map_of y ''name'' \<noteq> Some n"
      using Cons.prems True by (auto simp: image_iff)
    then have "accounts_named xs n = Inr []" by (rule accounts_named_none)
    then show ?thesis using True Cons.prems by simp
  next
    case False
    then have a: "a \<in> set xs" using Cons.prems by simp
    have "map_of x ''name'' \<noteq> Some n"
      using Cons.prems a by (auto simp: image_iff)
    moreover have "accounts_named xs n = Inr [a]"
      using Cons.IH Cons.prems a by simp
    ultimately show ?thesis using Cons.prems by (auto split: option.splits)
  qed
qed

lemma account_info_of_unique:
  assumes "\<forall>x\<in>set (accounts (db_config db)). map_of x ''name'' \<noteq> None"
      and "distinct (map (\<lambda>x. map_of x ''name'') (accounts (db_config db)))"
      and "a \<in> set (accounts (db_config db))" and "map_of a ''name'' = Some n"
  shows "account_info_of db n = Inr a"
  using accounts_named_unique[OF assms] by (simp add: account_info_of_def)

lemma collect_trades_append:
  "collect_trades d fs db (xs @ ys) all_trades
   = bnd (collect_trades d fs db xs all_trades) (collect_trades d fs db ys)"
proof (induction xs arbitrary: all_trades)
  case Nil
  then show ?case by simp
next
  case (Cons x xs)
  show ?case
  proof (cases "py_getitem (YMap x) ''name''")
    case (Inl e)
    then show ?thesis by simp
  next
    case (Inr nm)
    then show ?thesis
      by (cases "get_local_trades_for_account d fs db nm") (simp_all add: Cons.IH)
  qed
qed

text \<open>
  Claim C9. In a configuration whose accounts all have a name, no two the same, an
  account of the ethereum or bitcoin kind (it has that key and neither \<^verbatim>\<open>exchange\<close>
  nor \<^verbatim>\<open>file\<close>) has the empty list of local trades: the lookup returns it and raises
  nothing, whatever the files hold.
\<close>

theorem chain_account_local_trades_empty:
  assumes "\<forall>x\<in>set (accounts (db_config db)). map_of x ''name'' \<noteq> None"
      and "distinct (map (\<lambda>x. map_of x ''name'') (accounts (db_config db)))"
      and "a \<in> set (accounts (db_config db))" and "map_of a ''name'' = Some n"
      and "map_of a ''ethereum'' \<noteq> None \<or> map_of a ''bitcoin'' \<noteq> None"
      and "map_of a ''exchange'' = None" and "map_of a ''file'' = None"
  shows "get_local_trades_for_account deserialize fs db n = Inr []"
proof -
  have "account_info_of db n = Inr a"
    using assms(1-4) by (rule account_info_of_unique)
  then show ?thesis
    using assms(5-7) by (simp add: get_local_trades_for_account_def)
qed

theorem chain_account_local_trades_empty_witness:
  "get_local_trades_for_account (\<lambda>y. Inr y) Map.empty (BuchfinkDB example_config)
     (YStr ''wallet1'') = Inr []"
  using chain_account_local_trades_empty
    [of "BuchfinkDB example_config" wallet1 "YStr ''wallet1''" "\<lambda>y. Inr y" Map.empty]
  by (simp add: example_config_def kraken1_def wallet1_def manual1_def BuchfinkDB_def)



text \<open>
  Claim C8, as stated, fails: with no file at all, the local trades of the exchange
  account of the example are not the empty list but a FileNotFoundError, and
  \<^verbatim>\<open>allowances\<close> ends with that error.
\<close>

theorem missing_ledger_counterexample:
  "files_of [] (resolve ''./trades/kraken1.yaml'') = None
   \<and> get_local_trades_for_account (\<lambda>y. Inr y) (files_of []) (BuchfinkDB example_config)
       (YStr ''kraken1'') = Inl (FileNotFoundError ''./trades/kraken1.yaml'')
   \<and> allowances quiet_world (\<lambda>y. Inr y) (files_of []) example_config
       = Inl (FileNotFoundError ''./trades/kraken1.yaml'')"
  by (simp add: allowances_def get_all_accounts_def get_local_trades_for_account_def
      account_info_of_def py_getitem_def str_add_def yaml_load_open_def
      example_config_def kraken1_def wallet1_def manual1_def BuchfinkDB_def
      files_of_def resolve_def)

text \<open>
  Claim C8, amended. For an account of the exchange kind whose ledger file does not
  exist, the lookup of its local trades raises FileNotFoundError for the path of the
  ledger, and \<^verbatim>\<open>allowances\<close> ends with that error once the accounts before it
  have been collected: a missing ledger is not an empty history.
\<close>

theorem missing_ledger_raises:
  assumes "\<forall>x\<in>set (accounts cfg). map_of x ''name'' \<noteq> None"
      and "distinct (map (\<lambda>x. map_of x ''name'') (accounts cfg))"
      and "accounts cfg = xs @ a # ys"
      and "map_of a ''name'' = Some (YStr s)"
      and "map_of a ''exchange'' \<noteq> None"
      and "fs (resolve (os_path_join ''.'' [''trades'', s @ ''.yaml''])) = None"
      and "collect_trades d fs (BuchfinkDB cfg) xs [] = Inr pre"
  shows "get_local_trades_for_account d fs (BuchfinkDB cfg) (YStr s)
           = Inl (FileNotFoundError (os_path_join ''.'' [''trades'', s @ ''.yaml'']))
       \<and> allowances w d fs cfg
           = Inl (FileNotFoundError (os_path_join ''.'' [''trades'', s @ ''.yaml'']))"
proof -
  have "a \<in> set (accounts cfg)" using assms(3) by simp
  then have info: "account_info_of (BuchfinkDB cfg) (YStr s) = Inr a"
    using assms(1,2,4) by (intro account_info_of_unique) (simp_all add: BuchfinkDB_def)
  have local:
    "get_local_trades_for_account d fs (BuchfinkDB cfg) (YStr s)
       = Inl (FileNotFoundError (os_path_join ''.'' [''trades'', s @ ''.yaml'']))"
    using info assms(4-6)
    by (auto simp: get_local_trades_for_account_def py_getitem_def str_add_def
        yaml_load_open_def BuchfinkDB_def)
  have "collect_trades d fs (BuchfinkDB cfg) (xs @ a # ys) []
          = collect_trades d fs (BuchfinkDB cfg) (a # ys) pre"
    using assms(7) by (simp add: collect_trades_append)
  also have "\<dots> = Inl (FileNotFoundError (os_path_join ''.'' [''trades'', s @ ''.yaml'']))"
    using local assms(4) by (simp add: py_getitem_def)
  finally have "allowances w d fs cfg
      = Inl (FileNotFoundError (os_path_join ''.'' [''trades'', s @ ''.yaml'']))"
    using assms(3) by (simp add: allowances_def get_all_accounts_def BuchfinkDB_def)
  with local show ?thesis by simp
qed

theorem missing_ledger_raises_witness:
  "get_local_trades_for_account (\<lambda>y. Inr y) (files_of [])
       (BuchfinkDB (example_config\<lparr>accounts := [wallet1, kraken1]\<rparr>)) (YStr ''kraken1'')
     = Inl (FileNotFoundError ''./trades/kraken1.yaml'')
   \<and> allowances quiet_world (\<lambda>y. Inr y) (files_of [])
       (example_config\<lparr>accounts := [wallet1, kraken1]\<rparr>)
     = Inl (FileNotFoundError ''./trades/kraken1.yaml'')"
  using missing_ledger_raises
    [of "example_config\<lparr>accounts := [wallet1, kraken1]\<rparr>" "[wallet1]" kraken1 "[]"
        "''kraken1''" "files_of []" "\<lambda>y. Inr y" "[]" quiet_world]
  by (simp add: example_config_def kraken1_def wallet1_def BuchfinkDB_def files_of_def
      resolve_def get_local_trades_for_account_def account_info_of_def py_getitem_def)

section \<open>Reports\<close>

lemma map_result_fst:
  "map_result overview_row rs = Inr tbl \<Longrightarrow> map fst tbl = map fst rs"
proof (induction rs arbitrary: tbl)
  case Nil
  then show ?case by simp
next
  case (Cons r rs)
  then show ?case
    by (auto simp: overview_row_def py_getitem_def split: sum.splits yaml.splits option.splits)
qed

lemma run_reports_step:
  assumes "run_reports w db k (Inr rep # rest) res = Inr res'"
  shows "(k \<noteq> None \<and> \<not> str_contains (name rep) (the k)
            \<and> run_reports w db k rest res = Inr res')
       \<or> (\<not> (k \<noteq> None \<and> \<not> str_contains (name rep) (the k))
            \<and> (\<exists>r. run_report w db rep = Inr r
                  \<and> run_reports w db k rest (AList.update (name rep) r res) = Inr res'))"
proof (cases "k \<noteq> None \<and> \<not> str_contains (name rep) (the k)")
  case True
  then show ?thesis using assms by simp
next
  case False
  then show ?thesis using assms by (cases "run_report w db rep") auto
qed

lemma run_reports_keys_mono:
  "run_reports w db k outs res = Inr res' \<Longrightarrow> fst ` set res \<subseteq> fst ` set res'"
proof (induction outs arbitrary: res)
  case Nil
  then show ?case by simp
next
  case (Cons out outs)
  show ?case
  proof (cases out)
    case (Inl e)
    then show ?thesis using Cons.prems by simp
  next
    case (Inr rep)
    from run_reports_step[OF Cons.prems[unfolded Inr]] show ?thesis
    proof (elim disjE conjE exE)
      assume "run_reports w db k outs res = Inr res'"
      then show ?thesis by (rule Cons.IH)
    next
      fix r assume "run_reports w db k outs (AList.update (name rep) r res) = Inr res'"
      then have "fst ` set (AList.update (name rep) r res) \<subseteq> fst ` set res'"
        by (rule Cons.IH)
      then show ?thesis by (auto simp: dom_update)
    qed
  qed
qed

lemma run_reports_all_run:
  "run_reports w db k outs res = Inr res' \<Longrightarrow> Inr rep \<in> set outs \<Longrightarrow>
   (case k of None \<Rightarrow> True | Some kw \<Rightarrow> str_contains (name rep) kw) \<Longrightarrow>
   (\<exists>r. run_report w db rep = Inr r) \<and> name rep \<in> fst ` set res'"
proof (induction outs arbitrary: res)
  case Nil
  then show ?case by simp
next
  case (Cons out outs)
  show ?case
  proof (cases out)
    case (Inl e)
    then show ?thesis using Cons.prems by simp
  next
    case (Inr rep')
    from run_reports_step[OF Cons.prems(1)[unfolded Inr]] show ?thesis
    proof (elim disjE conjE exE)
      assume skip: "k \<noteq> None" "\<not> str_contains (name rep') (the k)"
        and rest: "run_reports w db k outs res = Inr res'"
      have "rep \<noteq> rep'" using skip Cons.prems(3) by (auto split: option.splits)
      then have "Inr rep \<in> set outs" using Cons.prems(2) Inr by simp
      then show ?thesis using Cons.IH[OF rest] Cons.prems(3) by simp
    next
      fix r assume r: "run_report w db rep' = Inr r"
        and rest: "run_reports w db k outs (AList.update (name rep') r res) = Inr res'"
      show ?thesis
      proof (cases "rep = rep'")
        case True
        have "name rep' \<in> fst ` set (AList.update (name rep') r res)"
          by (simp add: dom_update)
        then have "name rep' \<in> fst ` set res'"
          using run_reports_keys_mono[OF rest] by blast
        then show ?thesis using True r by blast
      next
        case False
        then have "Inr rep \<in> set outs" using Cons.prems(2) Inr by simp
        then show ?thesis using Cons.IH[OF rest] Cons.prems(3) by simp
      qed
    qed
  qed
qed

text \<open>
  Claim C7, as stated, fails: the batch over \<open>y2020\<close> and \<open>y2021\<close>, where the
  accounting of \<open>y2020\<close> fails, ends with that failure and has no table, although the
  batch over \<open>y2021\<close> alone has its row.
\<close>

theorem run_batch_counterexample:
  "run failing_world (example_config\<lparr>reports := [y2021]\<rparr>) None
     = Inr [(''y2021'', YInt 5, YInt 3)]
   \<and> run failing_world (example_config\<lparr>reports := [y2020, y2021]\<rparr>) None
     = Inl (Raised ''ReportError'')"
  by (simp add: run_def get_all_reports_def make_report_def py_getitem_def py_get_def
      py_str_def overview_row_def failing_world_def quiet_world_def example_dates_def
      example_result_def example_config_def y2020_def y2021_def BuchfinkDB_def)

text \<open>
  Claim C7, amended. In a batch run, the failure of the accounting of one matched report
  is fatal for the whole batch: \<^verbatim>\<open>run\<close> ends with an exception and has no table.
  A batch that has its table has run the accounting of every matched report with
  success, and the table has a row of the name of each.
\<close>

theorem run_batch_failure_is_fatal:
  assumes "Inr rep \<in> set (get_all_reports w (BuchfinkDB cfg))"
      and "case keyword of None \<Rightarrow> True | Some kw \<Rightarrow> str_contains (name rep) kw"
  shows "(run w cfg keyword = Inr tbl \<longrightarrow>
            (\<exists>r. run_report w (BuchfinkDB cfg) rep = Inr r) \<and> name rep \<in> fst ` set tbl)
       \<and> (run_report w (BuchfinkDB cfg) rep = Inl e \<longrightarrow> (\<exists>e'. run w cfg keyword = Inl e'))"
proof -
  have a: "(\<exists>r. run_report w (BuchfinkDB cfg) rep = Inr r) \<and> name rep \<in> fst ` set t"
    if "run w cfg keyword = Inr t" for t
  proof -
    have "bnd (run_reports w (BuchfinkDB cfg) keyword (get_all_reports w (BuchfinkDB cfg)) [])
            (map_result overview_row) = Inr t"
      using that by (simp add: run_def Let_def)
    then obtain res where res:
      "run_reports w (BuchfinkDB cfg) keyword (get_all_reports w (BuchfinkDB cfg)) [] = Inr res"
      and tbl: "map_result overview_row res = Inr t"
      by (cases "run_reports w (BuchfinkDB cfg) keyword (get_all_reports w (BuchfinkDB cfg)) []")
        simp_all
    have "map fst t = map fst res" using tbl by (rule map_result_fst)
    then have "fst ` set t = fst ` set res" by (metis set_map)
    then show ?thesis using run_reports_all_run[OF res assms(1) assms(2)] by simp
  qed
  show ?thesis
  proof (intro conjI impI)
    assume "run w cfg keyword = Inr tbl"
    then show "\<exists>r. run_report w (BuchfinkDB cfg) rep = Inr r" using a by blast
  next
    assume "run w cfg keyword = Inr tbl"
    then show "name rep \<in> fst ` set tbl" using a by blast
  next
    assume e: "run_report w (BuchfinkDB cfg) rep = Inl e"
    show "\<exists>e'. run w cfg keyword = Inl e'"
    proof (cases "run w cfg keyword")
      case (Inl e')
      then show ?thesis by blast
    next
      case (Inr t)
      then show ?thesis using a[OF Inr] e by simp
    qed
  qed
qed

theorem run_batch_failure_is_fatal_witness:
  "(\<exists>r. run_report failing_world (BuchfinkDB (example_config\<lparr>reports := [y2021]\<rparr>))
          \<lparr>name = ''y2021'', title = YNull, template = YNull, from_dt = 18628,
             to_dt = 18992\<rparr> = Inr r)
   \<and> ''y2021'' \<in> fst ` set [(''y2021'', YInt 5, YInt 3)]
   \<and> (\<exists>e'. run failing_world (example_config\<lparr>reports := [y2020, y2021]\<rparr>) None = Inl e')"
  using run_batch_failure_is_fatal
    [of "\<lparr>name = ''y2021'', title = YNull, template = YNull, from_dt = 18628, to_dt = 18992\<rparr>"
        failing_world "example_config\<lparr>reports := [y2021]\<rparr>" None
        "[(''y2021'', YInt 5, YInt 3)]" "Raised ''ReportError''"]
    run_batch_failure_is_fatal
    [of "\<lparr>name = ''y2020'', title = YNull, template = YNull, from_dt = 18262, to_dt = 18627\<rparr>"
        failing_world "example_config\<lparr>reports := [y2020, y2021]\<rparr>" None
        "[]" "Raised ''ReportError'' :: error"]
  by (simp add: run_def get_all_reports_def make_report_def py_getitem_def py_get_def
      py_str_def overview_row_def failing_world_def quiet_world_def example_dates_def
      example_result_def example_config_def y2020_def y2021_def BuchfinkDB_def)




section \<open>Accounts that fail\<close>








section \<open>The table of balances\<close>

lemma apply_entries_Nil [simp]: "apply_entries [] s = s"
  by (simp add: apply_entries_def)

lemma apply_entries_Cons [simp]:
  "apply_entries (e # es) s = apply_entries es (apply_entry e s)"
  by (simp add: apply_entries_def)

lemma apply_entries_append [simp]:
  "apply_entries (es @ es') s = apply_entries es' (apply_entries es s)"
  by (simp add: apply_entries_def)


lemma bnd_Inr_iff: "bnd m f = Inr y \<longleftrightarrow> (\<exists>x. m = Inr x \<and> f x = Inr y)"
  by (cases m) simp_all
















lemma quantity_total_Cons:
  "quantity_total (e # es) a = (if fst e = a then fst (snd e) else 0) + quantity_total es a"
  by (simp add: quantity_total_def)













lemma priced_Nil [simp]: "priced [] = []"
  by (simp add: priced_def)



































section \<open>Permuting the accounts\<close>























section \<open>The ledger written by fetch and read back\<close>

















lemma split_slash_nonempty: "split_slash p \<noteq> []"
  by (induction p) (auto split: list.splits)









end
